theory Spec2Isabelle
  imports Main "HOL-Library.Word"
begin

section \<open>Errors, panics and results\<close>

text \<open>
  A Go \<^verbatim>\<open>error\<close> returned by the client is one of the three package-level values
  \<^verbatim>\<open>ErrTxIDUsed\<close>, \<^verbatim>\<open>ErrInsufficientFunds\<close>, \<^verbatim>\<open>ErrHookExists\<close> (each made once by
  \<^verbatim>\<open>errors.New\<close>, so each is one pointer), a value made afresh by \<^verbatim>\<open>errors.New\<close> or
  \<^verbatim>\<open>fmt.Errorf\<close> inside a call (a new pointer: it is never \<^verbatim>\<open>==\<close> to a package-level
  value, whatever its text), or a value made by the standard library (net/http, net/url,
  io, encoding/json, time), of which only the text is kept.
\<close>

datatype error =
    ErrTxIDUsed
  | ErrInsufficientFunds
  | ErrHookExists
  | ErrorString string
  | LibError string

text \<open>The method \<^verbatim>\<open>Error()\<close>: the text of an error value.\<close>

fun Error :: "error \<Rightarrow> string" where
  "Error ErrTxIDUsed = ''TxID used''"
| "Error ErrInsufficientFunds = ''insufficient funds''"
| "Error ErrHookExists = ''hook exists''"
| "Error (ErrorString s) = s"
| "Error (LibError s) = s"

text \<open>
  A run-time panic: an index expression \<^verbatim>\<open>s[i]\<close> with \<^verbatim>\<open>i\<close> outside the slice (index and
  length), or \<^verbatim>\<open>make\<close> with a negative size.
\<close>

datatype panic =
    IndexOutOfRange nat nat
  | MakesliceOutOfRange int

text \<open>
  A call returns its values with a nil error, returns a non-nil error, or panics.
  The values a Go function returns next to a non-nil error are not kept.
\<close>

datatype 'a result = Ok 'a | Err error | Panic panic

fun lift :: "error + 'a \<Rightarrow> 'a result" where
  "lift (Inl e) = Err e"
| "lift (Inr x) = Ok x"

section \<open>JSON values and encoding/json\<close>

text \<open>
  A JSON value. A number literal without fraction and exponent is \<open>JInt\<close>; any other
  number literal is kept as its text. Object members are kept in document order, with
  duplicates.
\<close>

datatype json =
    JNull
  | JBool bool
  | JInt int
  | JFloat string
  | JString string
  | JArray "json list"
  | JObject "(string \<times> json) list"

text \<open>
  The parts of the standard library that work on bytes are parameters of the model:
  \<^item> \<open>json_parse\<close>: the value that a complete JSON text denotes (\<open>None\<close> when the bytes are
    not one valid JSON text), the syntax layer of \<^verbatim>\<open>json.Unmarshal\<close>;
  \<^item> \<open>json_next\<close>: what \<^verbatim>\<open>(*json.Decoder).Decode\<close> reads from a stream, the first JSON
    value or the text of the error;
  \<^item> \<open>json_Encode\<close>: the bytes \<^verbatim>\<open>(*json.Encoder).Encode\<close> writes for a value;
  \<^item> \<open>rfc3339\<close>: whether \<^verbatim>\<open>time.Time\<close> accepts a string as a timestamp;
  \<^item> \<open>url_Parse\<close>: \<^verbatim>\<open>url.Parse\<close> as \<^verbatim>\<open>http.NewRequest\<close> uses it, the text of the error
    or the URL as \<^verbatim>\<open>String()\<close> prints it.
\<close>

record stdlib =
  json_parse :: "string \<Rightarrow> json option"
  json_next :: "string \<Rightarrow> string + json"
  json_Encode :: "json \<Rightarrow> string"
  rfc3339 :: "string \<Rightarrow> bool"
  url_Parse :: "string \<Rightarrow> string + string"

text \<open>
  encoding/json matches an object key with a struct field when the two are equal after
  case folding: ASCII letters fold to upper case, and the two non-ASCII runes whose simple
  fold is an ASCII letter, U+017F (long s, bytes C5 BF) and U+212A (Kelvin sign, bytes
  E2 84 AA), fold to \<open>S\<close> and \<open>K\<close>.
\<close>

definition upper :: "char \<Rightarrow> char" where
  "upper c =
     (case map_of (zip ''abcdefghijklmnopqrstuvwxyz'' ''ABCDEFGHIJKLMNOPQRSTUVWXYZ'') c of
        Some u \<Rightarrow> u
      | None \<Rightarrow> c)"

fun foldName :: "string \<Rightarrow> string" where
  "foldName (a # b # c # cs) =
     (if a = CHR 0xE2 \<and> b = CHR 0x84 \<and> c = CHR 0xAA then CHR ''K'' # foldName cs
      else if a = CHR 0xC5 \<and> b = CHR 0xBF then CHR ''S'' # foldName (c # cs)
      else upper a # foldName (b # c # cs))"
| "foldName [a, b] =
     (if a = CHR 0xC5 \<and> b = CHR 0xBF then [CHR ''S''] else upper a # foldName [b])"
| "foldName [a] = [upper a]"
| "foldName [] = []"

text \<open>The word encoding/json uses for a JSON value in a type error.\<close>

fun kind :: "json \<Rightarrow> string" where
  "kind JNull = ''null''"
| "kind (JBool _) = ''bool''"
| "kind (JInt _) = ''number''"
| "kind (JFloat _) = ''number''"
| "kind (JString _) = ''string''"
| "kind (JArray _) = ''array''"
| "kind (JObject _) = ''object''"

text \<open>
  \<^verbatim>\<open>*json.UnmarshalTypeError\<close> for a value that does not fit the Go type \<open>ty\<close>. Its text
  starts with \<^verbatim>\<open>json: cannot unmarshal\<close>; the struct and field that encoding/json adds
  to the text are left out.
\<close>

definition typeError :: "json \<Rightarrow> string \<Rightarrow> error" where
  "typeError v ty = LibError (''json: cannot unmarshal '' @ kind v @ '' into Go value of type '' @ ty)"

text \<open>
  Decoding a JSON value into a Go variable that holds \<open>old\<close>. JSON null leaves a string,
  an integer, a struct and a \<^verbatim>\<open>time.Time\<close> as they are and makes a slice nil. A value of
  the wrong kind is an error. Where several members of one document are ill-typed the
  model reports the first in document order; which of them encoding/json reports is not
  used below.
\<close>

type_synonym int64 = "64 word"

definition decode_string :: "string \<Rightarrow> json \<Rightarrow> error + string" where
  "decode_string old v =
     (case v of JString s \<Rightarrow> Inr s | JNull \<Rightarrow> Inr old | _ \<Rightarrow> Inl (typeError v ''string''))"

definition decode_int64 :: "int64 \<Rightarrow> json \<Rightarrow> error + int64" where
  "decode_int64 old v =
     (case v of
        JInt i \<Rightarrow> if - (2 ^ 63) \<le> i \<and> i < 2 ^ 63 then Inr (word_of_int i)
                  else Inl (typeError v ''int64'')
      | JNull \<Rightarrow> Inr old
      | _ \<Rightarrow> Inl (typeError v ''int64''))"

text \<open>The members of an object, in order, each handed to the struct's field setter
  under its folded key; a later duplicate overwrites an earlier one.\<close>

fun members :: "(string \<Rightarrow> json \<Rightarrow> 'a \<Rightarrow> error + 'a) \<Rightarrow> (string \<times> json) list \<Rightarrow> 'a \<Rightarrow> error + 'a" where
  "members setf [] x = Inr x"
| "members setf (kv # kvs) x =
     (case setf (foldName (fst kv)) (snd kv) x of
        Inl e \<Rightarrow> Inl e
      | Inr x' \<Rightarrow> members setf kvs x')"

definition decode_struct :: "string \<Rightarrow> (string \<Rightarrow> json \<Rightarrow> 'a \<Rightarrow> error + 'a) \<Rightarrow> 'a \<Rightarrow> json \<Rightarrow> error + 'a" where
  "decode_struct ty setf old v =
     (case v of
        JObject kvs \<Rightarrow> members setf kvs old
      | JNull \<Rightarrow> Inr old
      | _ \<Rightarrow> Inl (typeError v ty))"

text \<open>The elements of an array, in order, each decoded into a fresh element.\<close>

fun elements :: "(json \<Rightarrow> error + 'a) \<Rightarrow> json list \<Rightarrow> error + 'a list" where
  "elements dec [] = Inr []"
| "elements dec (v # vs) =
     (case dec v of
        Inl e \<Rightarrow> Inl e
      | Inr x \<Rightarrow> (case elements dec vs of Inl e \<Rightarrow> Inl e | Inr xs \<Rightarrow> Inr (x # xs)))"

definition decode_slice :: "string \<Rightarrow> (json \<Rightarrow> error + 'a) \<Rightarrow> json \<Rightarrow> error + 'a list" where
  "decode_slice ty dec v =
     (case v of
        JArray vs \<Rightarrow> elements dec vs
      | JNull \<Rightarrow> Inr []
      | _ \<Rightarrow> Inl (typeError v ty))"

text \<open>
  \<^verbatim>\<open>json.RawMessage\<close>: the bytes of one JSON value, kept as the value they denote;
  \<open>None\<close> is the nil message, which holds no bytes. \<^verbatim>\<open>json.Unmarshal\<close> of a raw message
  fails on no bytes and otherwise decodes the value.
\<close>

type_synonym RawMessage = "json option"

definition Unmarshal_raw :: "(json \<Rightarrow> error + 'a) \<Rightarrow> RawMessage \<Rightarrow> error + 'a" where
  "Unmarshal_raw dec payload =
     (case payload of
        None \<Rightarrow> Inl (LibError ''unexpected end of JSON input'')
      | Some v \<Rightarrow> dec v)"

section \<open>The data of the client\<close>

record Account =
  acc_ID :: int64
  acc_Balance :: int64

text \<open>A \<^verbatim>\<open>time.Time\<close>: the zero time, or the instant an accepted timestamp denotes
  (kept as that timestamp).\<close>

datatype time = ZeroTime | Instant string

record Transaction =
  tx_ID :: int64
  tx_Type :: string
  tx_FromAccountID :: int64
  tx_ToAccountID :: int64
  tx_FromAccountBalance :: int64
  tx_ToAccountBalance :: int64
  tx_FromAccountTxID :: int64
  tx_ToAccountTxID :: int64
  tx_Value :: int64
  tx_Created :: time
  tx_TxHashes :: "string list"
  tx_TxOutIndex :: int64

record TransactionEvent = Transaction +
  ev_Status :: string

record address =
  addr_Address :: string

record object =
  obj_Type :: string
  obj_Next :: string
  obj_Payload :: RawMessage

text \<open>The element type of the slice in \<^verbatim>\<open>doError\<close>, \<^verbatim>\<open>struct { Message string }\<close>.\<close>

record message =
  Message :: string

text \<open>The zero values.\<close>

definition zero_Account :: Account where
  "zero_Account = \<lparr>acc_ID = 0, acc_Balance = 0\<rparr>"

definition zero_Transaction :: Transaction where
  "zero_Transaction =
     \<lparr>tx_ID = 0, tx_Type = [], tx_FromAccountID = 0, tx_ToAccountID = 0,
      tx_FromAccountBalance = 0, tx_ToAccountBalance = 0, tx_FromAccountTxID = 0,
      tx_ToAccountTxID = 0, tx_Value = 0, tx_Created = ZeroTime, tx_TxHashes = [],
      tx_TxOutIndex = 0\<rparr>"

definition zero_TransactionEvent :: TransactionEvent where
  "zero_TransactionEvent =
     \<lparr>tx_ID = 0, tx_Type = [], tx_FromAccountID = 0, tx_ToAccountID = 0,
      tx_FromAccountBalance = 0, tx_ToAccountBalance = 0, tx_FromAccountTxID = 0,
      tx_ToAccountTxID = 0, tx_Value = 0, tx_Created = ZeroTime, tx_TxHashes = [],
      tx_TxOutIndex = 0, ev_Status = []\<rparr>"

definition zero_address :: address where
  "zero_address = \<lparr>addr_Address = []\<rparr>"

definition zero_object :: object where
  "zero_object = \<lparr>obj_Type = [], obj_Next = [], obj_Payload = None\<rparr>"

definition zero_message :: message where
  "zero_message = \<lparr>Message = []\<rparr>"

subsection \<open>Decoding into the structs\<close>

text \<open>
  Each setter takes the folded key of a member and stores the member's value in the
  field whose folded name it is (\<^verbatim>\<open>json:"id"\<close> folds to \<open>ID\<close>); a key that names no
  field is skipped.
\<close>

definition assign :: "error + 'b \<Rightarrow> ('b \<Rightarrow> 'a) \<Rightarrow> error + 'a" where
  "assign r upd = (case r of Inl e \<Rightarrow> Inl e | Inr y \<Rightarrow> Inr (upd y))"

definition decode_time :: "stdlib \<Rightarrow> time \<Rightarrow> json \<Rightarrow> error + time" where
  "decode_time lib old v =
     (case v of
        JNull \<Rightarrow> Inr old
      | JString s \<Rightarrow> if rfc3339 lib s then Inr (Instant s)
                     else Inl (LibError (''parsing time '' @ s))
      | _ \<Rightarrow> Inl (LibError ''Time.UnmarshalJSON: input is not a JSON string''))"

definition Account_field :: "string \<Rightarrow> json \<Rightarrow> Account \<Rightarrow> error + Account" where
  "Account_field k v a =
     (if k = ''ID'' then assign (decode_int64 (acc_ID a) v) (\<lambda>x. a\<lparr>acc_ID := x\<rparr>)
      else if k = ''BALANCE'' then assign (decode_int64 (acc_Balance a) v) (\<lambda>x. a\<lparr>acc_Balance := x\<rparr>)
      else Inr a)"

definition Transaction_field ::
  "stdlib \<Rightarrow> string \<Rightarrow> json \<Rightarrow> 'a Transaction_scheme \<Rightarrow> (error + 'a Transaction_scheme) option" where
  "Transaction_field lib k v t =
     (if k = ''ID'' then Some (assign (decode_int64 (tx_ID t) v) (\<lambda>x. t\<lparr>tx_ID := x\<rparr>))
      else if k = ''TYPE'' then Some (assign (decode_string (tx_Type t) v) (\<lambda>x. t\<lparr>tx_Type := x\<rparr>))
      else if k = ''FROMACCOUNTID'' then
        Some (assign (decode_int64 (tx_FromAccountID t) v) (\<lambda>x. t\<lparr>tx_FromAccountID := x\<rparr>))
      else if k = ''TOACCOUNTID'' then
        Some (assign (decode_int64 (tx_ToAccountID t) v) (\<lambda>x. t\<lparr>tx_ToAccountID := x\<rparr>))
      else if k = ''FROMACCOUNTBALANCE'' then
        Some (assign (decode_int64 (tx_FromAccountBalance t) v) (\<lambda>x. t\<lparr>tx_FromAccountBalance := x\<rparr>))
      else if k = ''TOACCOUNTBALANCE'' then
        Some (assign (decode_int64 (tx_ToAccountBalance t) v) (\<lambda>x. t\<lparr>tx_ToAccountBalance := x\<rparr>))
      else if k = ''FROMACCOUNTTXID'' then
        Some (assign (decode_int64 (tx_FromAccountTxID t) v) (\<lambda>x. t\<lparr>tx_FromAccountTxID := x\<rparr>))
      else if k = ''TOACCOUNTTXID'' then
        Some (assign (decode_int64 (tx_ToAccountTxID t) v) (\<lambda>x. t\<lparr>tx_ToAccountTxID := x\<rparr>))
      else if k = ''VALUE'' then
        Some (assign (decode_int64 (tx_Value t) v) (\<lambda>x. t\<lparr>tx_Value := x\<rparr>))
      else if k = ''CREATED'' then
        Some (assign (decode_time lib (tx_Created t) v) (\<lambda>x. t\<lparr>tx_Created := x\<rparr>))
      else if k = ''TXHASHES'' then
        Some (assign (decode_slice ''[]string'' (decode_string []) v) (\<lambda>x. t\<lparr>tx_TxHashes := x\<rparr>))
      else if k = ''TXOUTINDEX'' then
        Some (assign (decode_int64 (tx_TxOutIndex t) v) (\<lambda>x. t\<lparr>tx_TxOutIndex := x\<rparr>))
      else None)"

definition Transaction_setter :: "stdlib \<Rightarrow> string \<Rightarrow> json \<Rightarrow> Transaction \<Rightarrow> error + Transaction" where
  "Transaction_setter lib k v t =
     (case Transaction_field lib k v t of Some r \<Rightarrow> r | None \<Rightarrow> Inr t)"

text \<open>\<^verbatim>\<open>TransactionEvent\<close> embeds \<^verbatim>\<open>Transaction\<close>: its fields are those of the
  transaction and \<^verbatim>\<open>Status\<close>.\<close>

definition TransactionEvent_setter ::
  "stdlib \<Rightarrow> string \<Rightarrow> json \<Rightarrow> TransactionEvent \<Rightarrow> error + TransactionEvent" where
  "TransactionEvent_setter lib k v t =
     (case Transaction_field lib k v t of
        Some r \<Rightarrow> r
      | None \<Rightarrow>
          if k = ''STATUS'' then assign (decode_string (ev_Status t) v) (\<lambda>x. t\<lparr>ev_Status := x\<rparr>)
          else Inr t)"

definition address_field :: "string \<Rightarrow> json \<Rightarrow> address \<Rightarrow> error + address" where
  "address_field k v a =
     (if k = ''ADDRESS'' then assign (decode_string (addr_Address a) v) (\<lambda>x. a\<lparr>addr_Address := x\<rparr>)
      else Inr a)"

definition message_field :: "string \<Rightarrow> json \<Rightarrow> message \<Rightarrow> error + message" where
  "message_field k v m =
     (if k = ''MESSAGE'' then assign (decode_string (Message m) v) (\<lambda>x. m\<lparr>Message := x\<rparr>)
      else Inr m)"

text \<open>\<^verbatim>\<open>Payload\<close> is a \<^verbatim>\<open>json.RawMessage\<close>: it takes the bytes of any value, null too.\<close>

definition object_field :: "string \<Rightarrow> json \<Rightarrow> object \<Rightarrow> error + object" where
  "object_field k v obj =
     (if k = ''TYPE'' then assign (decode_string (obj_Type obj) v) (\<lambda>x. obj\<lparr>obj_Type := x\<rparr>)
      else if k = ''NEXT'' then assign (decode_string (obj_Next obj) v) (\<lambda>x. obj\<lparr>obj_Next := x\<rparr>)
      else if k = ''PAYLOAD'' then Inr (obj\<lparr>obj_Payload := Some v\<rparr>)
      else Inr obj)"

definition decode_Account :: "json \<Rightarrow> error + Account" where
  "decode_Account = decode_struct ''client.Account'' Account_field zero_Account"

definition decode_Transaction :: "stdlib \<Rightarrow> json \<Rightarrow> error + Transaction" where
  "decode_Transaction lib = decode_struct ''client.Transaction'' (Transaction_setter lib) zero_Transaction"

definition decode_TransactionEvent :: "stdlib \<Rightarrow> json \<Rightarrow> error + TransactionEvent" where
  "decode_TransactionEvent lib =
     decode_struct ''client.TransactionEvent'' (TransactionEvent_setter lib) zero_TransactionEvent"

definition decode_address :: "json \<Rightarrow> error + address" where
  "decode_address = decode_struct ''client.address'' address_field zero_address"

definition decode_message :: "json \<Rightarrow> error + message" where
  "decode_message = decode_struct ''struct { Message string }'' message_field zero_message"

definition decode_object :: "json \<Rightarrow> error + object" where
  "decode_object = decode_struct ''client.object'' object_field zero_object"

text \<open>\<^verbatim>\<open>json.Unmarshal(data, v)\<close> on bytes: no bytes and bytes that are not one JSON text
  are syntax errors.\<close>

definition json_Unmarshal :: "stdlib \<Rightarrow> (json \<Rightarrow> error + 'a) \<Rightarrow> string \<Rightarrow> error + 'a" where
  "json_Unmarshal lib dec data =
     (if data = [] then Inl (LibError ''unexpected end of JSON input'')
      else case json_parse lib data of
             None \<Rightarrow> Inl (LibError ''invalid character'')
           | Some v \<Rightarrow> dec v)"

section \<open>Requests, responses and the client\<close>

text \<open>
  An \<^verbatim>\<open>http.Request\<close>: method, URL, header (a key has a list of values), the credentials
  that \<^verbatim>\<open>SetBasicAuth\<close> puts into the Authorization header, and the bytes of the body
  (none for a nil body). An \<^verbatim>\<open>http.Response\<close>: the status code and what
  \<^verbatim>\<open>ioutil.ReadAll\<close> gets from the body, the text of a read error or the bytes.
\<close>

record request =
  req_Method :: string
  req_URL :: string
  req_Header :: "string \<rightharpoonup> string list"
  req_BasicAuth :: "(string \<times> string) option"
  req_Body :: string

record response =
  resp_StatusCode :: int
  resp_Body :: "string + string"

text \<open>The client: \<open>http_Do\<close> is \<^verbatim>\<open>(*http.Client).Do\<close> of the field \<^verbatim>\<open>client\<close>, which
  answers a request with the text of a transport error or with a response. The errors of
  the transport and of reading a body are values of net/http and io (\<^verbatim>\<open>Do\<close> wraps every
  error in a \<^verbatim>\<open>*url.Error\<close>), not values of this package.\<close>

record client =
  http_Do :: "request \<Rightarrow> string + response"
  url :: string
  user :: string
  pass :: string

definition NewRequest :: "stdlib \<Rightarrow> string \<Rightarrow> string \<Rightarrow> string \<Rightarrow> error + request" where
  "NewRequest lib method urlStr body =
     (case url_Parse lib urlStr of
        Inl e \<Rightarrow> Inl (LibError e)
      | Inr u \<Rightarrow> Inr \<lparr>req_Method = method, req_URL = u, req_Header = Map.empty,
                     req_BasicAuth = None, req_Body = body\<rparr>)"

definition SetBasicAuth :: "string \<Rightarrow> string \<Rightarrow> request \<Rightarrow> request" where
  "SetBasicAuth u p req = req\<lparr>req_BasicAuth := Some (u, p)\<rparr>"

definition Header_Set :: "string \<Rightarrow> string \<Rightarrow> request \<Rightarrow> request" where
  "Header_Set k v req = req\<lparr>req_Header := (req_Header req)(k \<mapsto> [v])\<rparr>"

definition Header_Get :: "(string \<rightharpoonup> string list) \<Rightarrow> string \<Rightarrow> string" where
  "Header_Get h k = (case h k of Some (v # _) \<Rightarrow> v | _ \<Rightarrow> [])"

text \<open>\<^verbatim>\<open>%d\<close> of \<^verbatim>\<open>fmt.Sprintf\<close>: a signed integer in decimal.\<close>

fun digits :: "nat \<Rightarrow> string" where
  "digits n =
     (if n < 10 then [''0123456789'' ! n]
      else digits (n div 10) @ [''0123456789'' ! (n mod 10)])"

declare digits.simps [simp del]

definition itoa :: "int \<Rightarrow> string" where
  "itoa i = (if i < 0 then CHR ''-'' # digits (nat (- i)) else digits (nat i))"

section \<open>The envelope decoder\<close>

text \<open>
  \<^verbatim>\<open>doError\<close> returns an \<^verbatim>\<open>error\<close>, so its result is \<open>Err\<close> of the error it returns, or a
  panic: \<^verbatim>\<open>payload[0]\<close> is evaluated without a look at the length of \<^verbatim>\<open>payload\<close>.
\<close>

definition doError :: "object \<Rightarrow> unit result" where
  "doError obj =
     (case Unmarshal_raw (decode_slice ''[]struct { Message string }'' decode_message) (obj_Payload obj) of
        Inl err \<Rightarrow> Err err
      | Inr payload \<Rightarrow>
          (case payload of
             [] \<Rightarrow> Panic (IndexOutOfRange 0 0)
           | m # _ \<Rightarrow> Err (ErrorString (Message m))))"

definition do :: "stdlib \<Rightarrow> client \<Rightarrow> request \<Rightarrow> (string \<times> RawMessage) result" where
  "do lib c req =
     (case http_Do c req of
        Inl err \<Rightarrow> Err (LibError err)
      | Inr resp \<Rightarrow>
          (case resp_Body resp of
             Inl err \<Rightarrow> Err (LibError err)
           | Inr body \<Rightarrow>
               if length body = 0 \<and> resp_StatusCode resp \<ge> 200 \<and> resp_StatusCode resp < 300
               then Ok ([], None)
               else
                 (case json_Unmarshal lib decode_object body of
                    Inl err \<Rightarrow> Err (ErrorString (req_URL req @ '': '' @ body))
                  | Inr obj \<Rightarrow>
                      if obj_Type obj = ''error''
                      then (case doError obj of
                              Ok _ \<Rightarrow> Ok ([], None)
                            | Err e \<Rightarrow> Err e
                            | Panic p \<Rightarrow> Panic p)
                      else Ok (obj_Next obj, obj_Payload obj))))"

section \<open>Resource operations\<close>

definition accountsFromPayload :: "RawMessage \<Rightarrow> error + Account list" where
  "accountsFromPayload payload =
     Unmarshal_raw (decode_slice ''[]client.Account'' decode_Account) payload"

definition accountFromPayload :: "RawMessage \<Rightarrow> error + Account" where
  "accountFromPayload payload =
     (case accountsFromPayload payload of
        Inl err \<Rightarrow> Inl err
      | Inr accs \<Rightarrow>
          if length accs \<noteq> 1 then Inl (ErrorString ''expected one account'')
          else Inr (accs ! 0))"

definition CreateAccount :: "stdlib \<Rightarrow> client \<Rightarrow> Account result" where
  "CreateAccount lib c =
     (let urlStr = url c @ ''/accounts/'' in
      case NewRequest lib ''POST'' urlStr [] of
        Inl err \<Rightarrow> Err err
      | Inr req0 \<Rightarrow>
          (let req = Header_Set ''Accept'' ''application/json'' (SetBasicAuth (user c) (pass c) req0) in
           case do lib c req of
             Err err \<Rightarrow> Err err
           | Panic p \<Rightarrow> Panic p
           | Ok r \<Rightarrow> lift (accountFromPayload (snd r))))"

definition Account :: "stdlib \<Rightarrow> client \<Rightarrow> int64 \<Rightarrow> Account result" where
  "Account lib c ident =
     (let urlStr = url c @ ''/accounts/'' @ itoa (sint ident) in
      case NewRequest lib ''GET'' urlStr [] of
        Inl err \<Rightarrow> Err err
      | Inr req0 \<Rightarrow>
          (let req = Header_Set ''Accept'' ''application/json'' (SetBasicAuth (user c) (pass c) req0) in
           case do lib c req of
             Err err \<Rightarrow> Err err
           | Panic p \<Rightarrow> Panic p
           | Ok r \<Rightarrow> lift (accountFromPayload (snd r))))"

definition CreateAddress :: "stdlib \<Rightarrow> client \<Rightarrow> int64 \<Rightarrow> string result" where
  "CreateAddress lib c accountID =
     (let urlStr = url c @ ''/accounts/'' @ itoa (sint accountID) @ ''/addresses/'' in
      case NewRequest lib ''POST'' urlStr [] of
        Inl err \<Rightarrow> Err err
      | Inr req0 \<Rightarrow>
          (let req = Header_Set ''Accept'' ''application/json'' (SetBasicAuth (user c) (pass c) req0) in
           case do lib c req of
             Err err \<Rightarrow> Err err
           | Panic p \<Rightarrow> Panic p
           | Ok r \<Rightarrow>
               (case Unmarshal_raw (decode_slice ''[]client.address'' decode_address) (snd r) of
                  Inl err \<Rightarrow> Err err
                | Inr addrs \<Rightarrow>
                    if length addrs \<noteq> 1 then Err (ErrorString ''expected one address'')
                    else Ok (addr_Address (addrs ! 0)))))"

section \<open>Transaction lifecycle\<close>

text \<open>
  The loop of \<^verbatim>\<open>CreateTransactionIDs\<close>, \<^verbatim>\<open>for i, tx := range txns { txIDs[i] = tx.ID }\<close>,
  from index \<open>i\<close> on: the assignment panics when \<open>i\<close> is not an index of \<^verbatim>\<open>txIDs\<close>.
\<close>

fun fill :: "nat \<Rightarrow> Transaction list \<Rightarrow> int64 list \<Rightarrow> panic + int64 list" where
  "fill i [] txIDs = Inr txIDs"
| "fill i (tx # txns) txIDs =
     (if i < length txIDs then fill (Suc i) txns (txIDs[i := tx_ID tx])
      else Inl (IndexOutOfRange i (length txIDs)))"

text \<open>
  \<^verbatim>\<open>n\<close> is a Go \<^verbatim>\<open>int\<close>. Encoding the request body cannot fail: the struct holds one
  integer. \<^verbatim>\<open>make([]Transaction, 0, n)\<close> panics for a negative \<^verbatim>\<open>n\<close>; the limit of memory
  on \<^verbatim>\<open>n\<close> is not modelled.
\<close>

definition CreateTransactionIDs :: "stdlib \<Rightarrow> client \<Rightarrow> int \<Rightarrow> int64 list result" where
  "CreateTransactionIDs lib c n =
     (let urlStr = url c @ ''/transactions/'';
          postBody = json_Encode lib (JObject [(''n'', JInt n)]) in
      case NewRequest lib ''POST'' urlStr postBody of
        Inl err \<Rightarrow> Err err
      | Inr req0 \<Rightarrow>
          (let req = Header_Set ''Content-Type'' ''application/json''
                       (Header_Set ''Accept'' ''application/json''
                         (SetBasicAuth (user c) (pass c) req0)) in
           case do lib c req of
             Err err \<Rightarrow> Err err
           | Panic p \<Rightarrow> Panic p
           | Ok r \<Rightarrow>
               if n < 0 then Panic (MakesliceOutOfRange n)
               else
                 (case Unmarshal_raw (decode_slice ''[]client.Transaction'' (decode_Transaction lib)) (snd r) of
                    Inl err \<Rightarrow> Err err
                  | Inr txns \<Rightarrow>
                      (case fill 0 txns (replicate (nat n) 0) of
                         Inl p \<Rightarrow> Panic p
                       | Inr txIDs \<Rightarrow> Ok txIDs))))"

text \<open>\<^verbatim>\<open>Transaction\<close> evaluates \<^verbatim>\<open>txns[0]\<close> without a look at the length of \<^verbatim>\<open>txns\<close>.\<close>

definition Transaction :: "stdlib \<Rightarrow> client \<Rightarrow> int64 \<Rightarrow> Transaction result" where
  "Transaction lib c ident =
     (let urlStr = url c @ ''/transactions/'' @ itoa (sint ident) in
      case NewRequest lib ''GET'' urlStr [] of
        Inl err \<Rightarrow> Err err
      | Inr req0 \<Rightarrow>
          (let req = Header_Set ''Accept'' ''application/json'' (SetBasicAuth (user c) (pass c) req0) in
           case do lib c req of
             Err err \<Rightarrow> Err err
           | Panic p \<Rightarrow> Panic p
           | Ok r \<Rightarrow>
               (case Unmarshal_raw (decode_slice ''[]client.Transaction'' (decode_Transaction lib)) (snd r) of
                  Inl err \<Rightarrow> Err err
                | Inr txns \<Rightarrow>
                    (case txns of
                       [] \<Rightarrow> Panic (IndexOutOfRange 0 0)
                     | tx # _ \<Rightarrow> Ok tx))))"

text \<open>
  \<^verbatim>\<open>Transfer\<close>, \<^verbatim>\<open>Debit\<close> and \<^verbatim>\<open>CreateHook\<close> return an \<^verbatim>\<open>error\<close>: \<open>Ok ()\<close> is nil.
  Encoding their request bodies cannot fail (integers and strings).
\<close>

definition Transfer :: "stdlib \<Rightarrow> client \<Rightarrow> int64 \<Rightarrow> int64 \<Rightarrow> int64 \<Rightarrow> int64 \<Rightarrow> unit result" where
  "Transfer lib c txID fromAccountID toAccountID val =
     (let urlStr = url c @ ''/transactions/'';
          putBody = json_Encode lib (JObject
            [(''id'', JInt (sint txID)), (''fromAccountID'', JInt (sint fromAccountID)),
             (''toAccountID'', JInt (sint toAccountID)), (''value'', JInt (sint val))]) in
      case NewRequest lib ''PUT'' urlStr putBody of
        Inl err \<Rightarrow> Err err
      | Inr req0 \<Rightarrow>
          (let req = Header_Set ''Content-Type'' ''application/json''
                       (SetBasicAuth (user c) (pass c) req0) in
           case do lib c req of
             Err err \<Rightarrow>
               if Error err = ''insufficient funds'' then Err ErrInsufficientFunds
               else Err err
           | Panic p \<Rightarrow> Panic p
           | Ok _ \<Rightarrow> Ok ()))"

definition Debit :: "stdlib \<Rightarrow> client \<Rightarrow> int64 \<Rightarrow> int64 \<Rightarrow> string \<Rightarrow> int64 \<Rightarrow> unit result" where
  "Debit lib c txID fromAccountID toAddress val =
     (let urlStr = url c @ ''/transactions/'';
          body = json_Encode lib (JObject
            [(''id'', JInt (sint txID)), (''fromAccountID'', JInt (sint fromAccountID)),
             (''toAddress'', JString toAddress), (''value'', JInt (sint val))]) in
      case NewRequest lib ''PUT'' urlStr body of
        Inl err \<Rightarrow> Err err
      | Inr req0 \<Rightarrow>
          (let req = Header_Set ''Content-Type'' ''application/json''
                       (SetBasicAuth (user c) (pass c) req0) in
           case do lib c req of
             Err err \<Rightarrow> Err err
           | Panic p \<Rightarrow> Panic p
           | Ok _ \<Rightarrow> Ok ()))"

definition CreateHook :: "stdlib \<Rightarrow> client \<Rightarrow> string \<Rightarrow> unit result" where
  "CreateHook lib c hookURL =
     (let urlStr = url c @ ''/hooks/'';
          body = json_Encode lib (JObject [(''url'', JString hookURL)]) in
      case NewRequest lib ''POST'' urlStr body of
        Inl err \<Rightarrow> Err err
      | Inr req0 \<Rightarrow>
          (let req = SetBasicAuth (user c) (pass c)
                       (Header_Set ''Content-Type'' ''application/json'' req0) in
           case do lib c req of
             Err err \<Rightarrow>
               if Error err = ''hook exists'' then Err ErrHookExists
               else Err err
           | Panic p \<Rightarrow> Panic p
           | Ok _ \<Rightarrow> Ok ()))"

section \<open>The webhook event parser\<close>

text \<open>
  \<^verbatim>\<open>Unmarshal\<close> compares the first value of the Content-Type header with
  \<^verbatim>\<open>application/json\<close>, then decodes the first JSON value of the body into an envelope.
  In \<^verbatim>\<open>return events, json.Unmarshal(obj.Payload, &events)\<close> the variable is read after
  the call, as the test of the hooks expects (it finds one event).
\<close>

definition Unmarshal :: "stdlib \<Rightarrow> request \<Rightarrow> error + TransactionEvent list" where
  "Unmarshal lib r =
     (if Header_Get (req_Header r) ''Content-Type'' \<noteq> ''application/json''
      then Inl (ErrorString ''incorrect content type'')
      else
        (case json_next lib (req_Body r) of
           Inl err \<Rightarrow> Inl (LibError err)
         | Inr v \<Rightarrow>
             (case decode_object v of
                Inl err \<Rightarrow> Inl err
              | Inr obj \<Rightarrow>
                  if obj_Type obj = ''transactions''
                  then Unmarshal_raw
                         (decode_slice ''[]client.TransactionEvent'' (decode_TransactionEvent lib))
                         (obj_Payload obj)
                  else Inl (ErrorString (''unknown object type '' @ obj_Type obj)))))"

section \<open>Concrete libraries, clients and envelopes\<close>

text \<open>
  Inputs on which the model is run: a library that knows the JSON value of the listed
  byte strings (and accepts every URL and every timestamp), a client whose transport
  answers every request with one status code and one body, and the envelopes of the
  service.
\<close>

definition lib_knowing :: "(string \<times> json) list \<Rightarrow> stdlib" where
  "lib_knowing docs =
     \<lparr>json_parse = map_of docs,
      json_next = (\<lambda>b. case map_of docs b of None \<Rightarrow> Inl ''EOF'' | Some v \<Rightarrow> Inr v),
      json_Encode = (\<lambda>_. []),
      rfc3339 = (\<lambda>_. True),
      url_Parse = Inr\<rparr>"

definition serving :: "int \<Rightarrow> string \<Rightarrow> client" where
  "serving status body =
     \<lparr>http_Do = (\<lambda>_. Inr \<lparr>resp_StatusCode = status, resp_Body = Inr body\<rparr>),
      url = ''https://api.rtwire.com/v1/mainnet'', user = ''user'', pass = ''pass''\<rparr>"

definition envelope :: "string \<Rightarrow> json \<Rightarrow> json" where
  "envelope ty payload = JObject [(''type'', JString ty), (''payload'', payload)]"

definition error_envelope :: "string \<Rightarrow> json" where
  "error_envelope msg = envelope ''error'' (JArray [JObject [(''message'', JString msg)]])"

definition txid_used_body :: string where
  \<open>txid_used_body = ''{"type":"error","payload":[{"message":"TxID used"}]}''\<close>

definition insufficient_body :: string where
  \<open>insufficient_body = ''{"type":"error","payload":[{"message":"insufficient funds"}]}''\<close>

definition hook_exists_body :: string where
  \<open>hook_exists_body = ''{"type":"error","payload":[{"message":"hook exists"}]}''\<close>

definition no_messages_body :: string where
  \<open>no_messages_body = ''{"type":"error","payload":[]}''\<close>

definition no_transactions_body :: string where
  \<open>no_transactions_body = ''{"type":"transactions","payload":[]}''\<close>

definition two_stubs_body :: string where
  \<open>two_stubs_body = ''{"type":"transactions","payload":[{"id":7},{"id":8}]}''\<close>

definition two_stubs :: json where
  "two_stubs = envelope ''transactions'' (JArray [JObject [(''id'', JInt 7)], JObject [(''id'', JInt 8)]])"


definition some_request :: request where
  "some_request =
     \<lparr>req_Method = ''GET'', req_URL = ''https://api.rtwire.com/v1/mainnet/accounts/'',
      req_Header = Map.empty, req_BasicAuth = None, req_Body = []\<rparr>"

definition one_account_body :: string where
  \<open>one_account_body = ''{"type":"accounts","payload":[{"id":1,"balance":0}]}''\<close>

definition one_account :: json where
  "one_account = envelope ''accounts'' (JArray [JObject [(''id'', JInt 1), (''balance'', JInt 0)]])"

definition two_accounts_body :: string where
  \<open>two_accounts_body = ''{"type":"accounts","payload":[{"id":1,"balance":0},{"id":2,"balance":0}]}''\<close>

definition two_accounts :: json where
  "two_accounts = envelope ''accounts''
     (JArray [JObject [(''id'', JInt 1), (''balance'', JInt 0)],
              JObject [(''id'', JInt 2), (''balance'', JInt 0)]])"

definition one_address_body :: string where
  \<open>one_address_body = ''{"type":"addresses","payload":[{"address":"12aXxEWgTYZgAiGC81Tqu1cSiDUSy3embt"}]}''\<close>

definition one_address :: json where
  "one_address = envelope ''addresses''
     (JArray [JObject [(''address'', JString ''12aXxEWgTYZgAiGC81Tqu1cSiDUSy3embt'')]])"

definition events_body :: string where
  \<open>events_body = ''{"type":"transactions","payload":[{"id":5,"type":"credit","toAccountID":1,"value":10,"status":"pending"},{"id":6,"type":"credit","status":""}]}''\<close>

definition events_doc :: json where
  "events_doc = envelope ''transactions''
     (JArray [JObject [(''id'', JInt 5), (''type'', JString ''credit''), (''toAccountID'', JInt 1),
                       (''value'', JInt 10), (''status'', JString ''pending'')],
              JObject [(''id'', JInt 6), (''type'', JString ''credit''), (''status'', JString [])]])"

definition hook_request :: "string \<Rightarrow> string \<Rightarrow> request" where
  "hook_request contentType body =
     \<lparr>req_Method = ''POST'', req_URL = ''/hook'',
      req_Header = [''Content-Type'' \<mapsto> [contentType]], req_BasicAuth = None, req_Body = body\<rparr>"

text \<open>
  A library whose URL parser rejects a string with a percent sign, and a client whose
  transport answers by the URL of the request and refuses every other request.
\<close>

definition lib_strict :: "(string \<times> json) list \<Rightarrow> stdlib" where
  "lib_strict docs =
     (lib_knowing docs)\<lparr>url_Parse :=
        (\<lambda>u. if CHR ''%'' \<in> set u then Inl ''invalid URL escape'' else Inr u)\<rparr>"

definition routed :: "(string \<times> int \<times> string) list \<Rightarrow> client" where
  "routed routes =
     \<lparr>http_Do = (\<lambda>req. case map_of routes (req_URL req) of
                        None \<Rightarrow> Inl ''connection refused''
                      | Some r \<Rightarrow> Inr \<lparr>resp_StatusCode = fst r, resp_Body = Inr (snd r)\<rparr>),
      url = ''https://api.rtwire.com/v1/mainnet'', user = ''user'', pass = ''pass''\<rparr>"

definition rtwire_routes :: "(string \<times> int \<times> string) list" where
  "rtwire_routes =
     [(''https://api.rtwire.com/v1/mainnet/accounts/'', 200, two_accounts_body),
      (''https://api.rtwire.com/v1/mainnet/accounts/1'', 200, one_account_body),
      (''https://api.rtwire.com/v1/mainnet/accounts/1/addresses/'', 200, one_address_body)]"

definition rtwire_docs :: "(string \<times> json) list" where
  "rtwire_docs =
     [(two_accounts_body, two_accounts), (one_account_body, one_account), (one_address_body, one_address)]"

section \<open>Kinds of error values\<close>

text \<open>An error value that is none of the three package-level values, and an error
  value made by the standard library.\<close>

fun fresh :: "error \<Rightarrow> bool" where
  "fresh (ErrorString _) = True"
| "fresh (LibError _) = True"
| "fresh _ = False"

fun from_library :: "error \<Rightarrow> bool" where
  "from_library (LibError _) = True"
| "from_library _ = False"

section \<open>Which errors the envelope decoder returns\<close>

lemmas eval_defs =
  lib_knowing_def serving_def envelope_def error_envelope_def
  do_def doError_def json_Unmarshal_def Unmarshal_raw_def NewRequest_def SetBasicAuth_def
  Header_Set_def Header_Get_def decode_object_def decode_message_def decode_struct_def
  decode_slice_def object_field_def message_field_def assign_def decode_string_def
  decode_int64_def upper_def zero_object_def zero_message_def typeError_def

lemmas eval_more =
  Transaction_def Account_def CreateAccount_def CreateAddress_def accountFromPayload_def
  accountsFromPayload_def decode_Transaction_def decode_Account_def decode_address_def
  Transaction_setter_def Transaction_field_def Account_field_def address_field_def
  zero_Transaction_def zero_Account_def zero_address_def

text \<open>
  A decoder fails only where a setter or an element decoder fails, and every error of
  decoding is a value of the library. So the errors of \<^verbatim>\<open>doError\<close> and \<^verbatim>\<open>do\<close> are
  library values or values made afresh, never one of the three package-level values.
\<close>

lemma members_Inl:
  "members setf kvs x = Inl e \<Longrightarrow> \<exists>k v y. setf k v y = Inl e"
  by (induction kvs arbitrary: x) (auto split: sum.splits)

lemma elements_Inl:
  "elements dec vs = Inl e \<Longrightarrow> \<exists>v. dec v = Inl e"
  by (induction vs) (auto split: sum.splits)

lemma decode_string_lib: "decode_string old v = Inl e \<Longrightarrow> from_library e"
  by (auto simp: decode_string_def typeError_def split: json.splits)

lemma decode_int64_lib: "decode_int64 old v = Inl e \<Longrightarrow> from_library e"
  by (auto simp: decode_int64_def typeError_def split: json.splits if_splits)

lemma decode_time_lib: "decode_time lib old v = Inl e \<Longrightarrow> from_library e"
  by (auto simp: decode_time_def split: json.splits if_splits)

lemma decode_struct_lib:
  assumes "decode_struct ty setf old v = Inl e" and "\<And>k v y e'. setf k v y = Inl e' \<Longrightarrow> from_library e'"
  shows "from_library e"
proof (cases v)
  case (JObject kvs)
  with assms(1) have "members setf kvs old = Inl e" by (simp add: decode_struct_def)
  then obtain k v' y where "setf k v' y = Inl e"
    using members_Inl [of setf kvs old e] by auto
  then show ?thesis by (rule assms(2))
qed (use assms(1) in \<open>auto simp: decode_struct_def typeError_def\<close>)

lemma decode_slice_lib:
  assumes "decode_slice ty dec v = Inl e" and "\<And>v e'. dec v = Inl e' \<Longrightarrow> from_library e'"
  shows "from_library e"
proof (cases v)
  case (JArray vs)
  with assms(1) have "elements dec vs = Inl e" by (simp add: decode_slice_def)
  then obtain v' where "dec v' = Inl e"
    using elements_Inl [of dec vs e] by auto
  then show ?thesis by (rule assms(2))
qed (use assms(1) in \<open>auto simp: decode_slice_def typeError_def\<close>)

lemma assign_Inl: "assign r upd = Inl e \<Longrightarrow> r = Inl e"
  by (auto simp: assign_def split: sum.splits)

lemma Transaction_field_lib:
  "Transaction_field lib k v t = Some (Inl e) \<Longrightarrow> from_library e"
  unfolding Transaction_field_def
  by (auto split: if_splits dest!: assign_Inl
        dest: decode_int64_lib decode_string_lib decode_time_lib
        elim: decode_slice_lib)

lemma TransactionEvent_setter_lib:
  "TransactionEvent_setter lib k v t = Inl e \<Longrightarrow> from_library e"
  unfolding TransactionEvent_setter_def
  by (auto split: option.splits if_splits dest!: assign_Inl dest: Transaction_field_lib decode_string_lib)

lemma object_field_lib: "object_field k v obj = Inl e \<Longrightarrow> from_library e"
  unfolding object_field_def
  by (auto split: if_splits dest!: assign_Inl dest: decode_string_lib)

lemma message_field_lib: "message_field k v m = Inl e \<Longrightarrow> from_library e"
  unfolding message_field_def
  by (auto split: if_splits dest!: assign_Inl dest: decode_string_lib)

lemma decode_object_lib: "decode_object v = Inl e \<Longrightarrow> from_library e"
  unfolding decode_object_def by (erule decode_struct_lib) (rule object_field_lib)

lemma decode_message_lib: "decode_message v = Inl e \<Longrightarrow> from_library e"
  unfolding decode_message_def by (erule decode_struct_lib) (rule message_field_lib)

lemma decode_TransactionEvent_lib: "decode_TransactionEvent lib v = Inl e \<Longrightarrow> from_library e"
  unfolding decode_TransactionEvent_def by (erule decode_struct_lib) (rule TransactionEvent_setter_lib)

lemma Unmarshal_raw_lib:
  assumes "Unmarshal_raw dec payload = Inl e" and "\<And>v e'. dec v = Inl e' \<Longrightarrow> from_library e'"
  shows "from_library e"
  using assms by (auto simp: Unmarshal_raw_def split: option.splits)

lemma events_lib:
  "Unmarshal_raw (decode_slice ''[]client.TransactionEvent'' (decode_TransactionEvent lib)) payload = Inl e
   \<Longrightarrow> from_library e"
  by (erule Unmarshal_raw_lib) (erule decode_slice_lib, rule decode_TransactionEvent_lib)

lemma doError_fresh: "doError obj = Err e \<Longrightarrow> fresh e"
proof -
  assume a: "doError obj = Err e"
  show ?thesis
  proof (cases "Unmarshal_raw (decode_slice ''[]struct { Message string }'' decode_message) (obj_Payload obj)")
    case (Inl err)
    then have "from_library err"
      by (rule Unmarshal_raw_lib) (erule decode_slice_lib, rule decode_message_lib)
    moreover from a Inl have "e = err" by (simp add: doError_def)
    ultimately show ?thesis by (cases e) auto
  next
    case (Inr payload)
    with a show ?thesis by (auto simp: doError_def split: list.splits)
  qed
qed

lemma doError_not_Ok: "doError obj \<noteq> Ok u"
  by (simp add: doError_def split: sum.splits list.splits)

lemma do_fresh: "do lib c req = Err e \<Longrightarrow> fresh e"
  unfolding do_def
  by (auto split: sum.splits if_splits result.splits dest: doError_fresh)

lemma NewRequest_fresh: "NewRequest lib m u b = Inl e \<Longrightarrow> fresh e"
  by (auto simp: NewRequest_def split: sum.splits)

lemma Transfer_not_TxIDUsed: "Transfer lib c txID a b v \<noteq> Err ErrTxIDUsed"
  unfolding Transfer_def Let_def
  by (auto split: sum.splits result.splits dest: do_fresh NewRequest_fresh)

lemma Debit_fresh: "Debit lib c txID a addr v = Err e \<Longrightarrow> fresh e"
  unfolding Debit_def Let_def
  by (auto split: sum.splits result.splits dest: do_fresh NewRequest_fresh)

lemmas eval_hook =
  Unmarshal_def hook_request_def decode_TransactionEvent_def TransactionEvent_setter_def
  Transaction_field_def zero_TransactionEvent_def decode_time_def

section \<open>The distinguished errors\<close>

text \<open>
  C1 (the code does not do this). The claim: when the service rejects a Transfer or a
  Debit because the transaction ID was already used, the call returns the value
  \<^verbatim>\<open>ErrTxIDUsed\<close>. In the code no path returns \<^verbatim>\<open>ErrTxIDUsed\<close>: for every library,
  client and arguments, neither Transfer nor Debit returns it; and on the error envelope
  with the message \<^verbatim>\<open>TxID used\<close> both return a fresh error with that text, which is a
  different value from \<^verbatim>\<open>ErrTxIDUsed\<close>.
\<close>

theorem ErrTxIDUsed_never_returned:
  "Transfer lib c txID fromAccountID toAccountID val \<noteq> Err ErrTxIDUsed \<and>
   Debit lib c txID fromAccountID toAddress val \<noteq> Err ErrTxIDUsed \<and>
   Transfer (lib_knowing [(txid_used_body, error_envelope ''TxID used'')])
     (serving 400 txid_used_body) 1 2 3 4 = Err (ErrorString ''TxID used'') \<and>
   Debit (lib_knowing [(txid_used_body, error_envelope ''TxID used'')])
     (serving 400 txid_used_body) 1 2 ''12aXxEWgTYZgAiGC81Tqu1cSiDUSy3embt'' 4
     = Err (ErrorString ''TxID used'') \<and>
   ErrorString ''TxID used'' \<noteq> ErrTxIDUsed"
proof -
  have "Debit lib c txID fromAccountID toAddress val \<noteq> Err ErrTxIDUsed"
    using Debit_fresh [of lib c txID fromAccountID toAddress val ErrTxIDUsed] by auto
  moreover have
    "Transfer (lib_knowing [(txid_used_body, error_envelope ''TxID used'')])
       (serving 400 txid_used_body) 1 2 3 4 = Err (ErrorString ''TxID used'')"
    by (simp add: Transfer_def txid_used_body_def eval_defs)
  moreover have
    "Debit (lib_knowing [(txid_used_body, error_envelope ''TxID used'')])
       (serving 400 txid_used_body) 1 2 ''12aXxEWgTYZgAiGC81Tqu1cSiDUSy3embt'' 4
       = Err (ErrorString ''TxID used'')"
    by (simp add: Debit_def txid_used_body_def eval_defs)
  ultimately show ?thesis
    using Transfer_not_TxIDUsed [of lib c txID fromAccountID toAccountID val] by simp
qed

text \<open>
  What Transfer and CreateHook do with the two messages they look for: an error from the
  envelope decoder whose text is \<^verbatim>\<open>insufficient funds\<close> (\<^verbatim>\<open>hook exists\<close>) becomes the
  package-level value.
\<close>

lemma Transfer_insufficient_funds:
  assumes "\<And>req. do lib c req = Err e" and "\<And>u. \<exists>r. url_Parse lib u = Inr r"
    and "Error e = ''insufficient funds''"
  shows "Transfer lib c txID fromAccountID toAccountID val = Err ErrInsufficientFunds"
proof -
  obtain req where
    "NewRequest lib ''PUT'' (url c @ ''/transactions/'')
       (json_Encode lib (JObject
          [(''id'', JInt (sint txID)), (''fromAccountID'', JInt (sint fromAccountID)),
           (''toAccountID'', JInt (sint toAccountID)), (''value'', JInt (sint val))])) = Inr req"
    using assms(2) [of "url c @ ''/transactions/''"] by (auto simp: NewRequest_def)
  then show ?thesis
    using assms(1,3) by (simp add: Transfer_def Let_def)
qed

lemma CreateHook_hook_exists:
  assumes "\<And>req. do lib c req = Err e" and "\<And>u. \<exists>r. url_Parse lib u = Inr r"
    and "Error e = ''hook exists''"
  shows "CreateHook lib c hookURL = Err ErrHookExists"
proof -
  obtain req where
    "NewRequest lib ''POST'' (url c @ ''/hooks/'')
       (json_Encode lib (JObject [(''url'', JString hookURL)])) = Inr req"
    using assms(2) [of "url c @ ''/hooks/''"] by (auto simp: NewRequest_def)
  then show ?thesis
    using assms(1,3) by (simp add: CreateHook_def Let_def)
qed

text \<open>
  C2 (the code does not do this for Debit). The claim: Transfer and Debit return
  \<^verbatim>\<open>ErrInsufficientFunds\<close> on the error envelope with the insufficient-funds message, and
  CreateHook returns \<^verbatim>\<open>ErrHookExists\<close> on the hook-exists message. On these envelopes
  Transfer and CreateHook do so, and Debit returns a fresh error with the text
  \<^verbatim>\<open>insufficient funds\<close> in place of \<^verbatim>\<open>ErrInsufficientFunds\<close>; Debit returns no
  package-level value on any input.
\<close>

theorem Debit_insufficient_funds_unmapped:
  "Debit (lib_knowing [(insufficient_body, error_envelope ''insufficient funds'')])
     (serving 400 insufficient_body) 1 2 ''12aXxEWgTYZgAiGC81Tqu1cSiDUSy3embt'' 5
     = Err (ErrorString ''insufficient funds'') \<and>
   ErrorString ''insufficient funds'' \<noteq> ErrInsufficientFunds \<and>
   Debit lib c txID fromAccountID toAddress val \<noteq> Err ErrInsufficientFunds \<and>
   Transfer (lib_knowing [(insufficient_body, error_envelope ''insufficient funds'')])
     (serving 400 insufficient_body) 1 2 3 5 = Err ErrInsufficientFunds \<and>
   CreateHook (lib_knowing [(hook_exists_body, error_envelope ''hook exists'')])
     (serving 400 hook_exists_body) ''http://127.0.0.1/hook'' = Err ErrHookExists"
proof -
  have "Debit lib c txID fromAccountID toAddress val \<noteq> Err ErrInsufficientFunds"
    using Debit_fresh [of lib c txID fromAccountID toAddress val ErrInsufficientFunds] by auto
  moreover have
    "Debit (lib_knowing [(insufficient_body, error_envelope ''insufficient funds'')])
       (serving 400 insufficient_body) 1 2 ''12aXxEWgTYZgAiGC81Tqu1cSiDUSy3embt'' 5
       = Err (ErrorString ''insufficient funds'')"
    by (simp add: Debit_def insufficient_body_def eval_defs)
  moreover have
    "Transfer (lib_knowing [(insufficient_body, error_envelope ''insufficient funds'')])
       (serving 400 insufficient_body) 1 2 3 5 = Err ErrInsufficientFunds"
    by (simp add: Transfer_def insufficient_body_def eval_defs)
  moreover have
    "CreateHook (lib_knowing [(hook_exists_body, error_envelope ''hook exists'')])
       (serving 400 hook_exists_body) ''http://127.0.0.1/hook'' = Err ErrHookExists"
    by (simp add: CreateHook_def hook_exists_body_def eval_defs)
  ultimately show ?thesis by simp
qed

section \<open>The envelope decoder: status codes and the type field\<close>

lemma do_exchange:
  assumes "http_Do c req = Inr resp" and "resp_Body resp = Inr body"
  shows "do lib c req =
     (if body = [] \<and> 200 \<le> resp_StatusCode resp \<and> resp_StatusCode resp < 300 then Ok ([], None)
      else case json_Unmarshal lib decode_object body of
             Inl err \<Rightarrow> Err (ErrorString (req_URL req @ '': '' @ body))
           | Inr obj \<Rightarrow> if obj_Type obj = ''error''
                        then (case doError obj of Ok _ \<Rightarrow> Ok ([], None) | Err e \<Rightarrow> Err e | Panic p \<Rightarrow> Panic p)
                        else Ok (obj_Next obj, obj_Payload obj))"
  using assms by (simp add: do_def)

text \<open>
  C3. For a completed exchange (the transport returned a response and its body was read):
  an empty body with a status code from 200 to 299 is a success with the empty cursor and
  no payload; for a non-empty body the call succeeds exactly when the body decodes to an
  envelope whose type is not \<^verbatim>\<open>error\<close>, it then returns the envelope's cursor and
  payload, and the result is the same under every status code.
\<close>

theorem do_status_and_type:
  assumes "http_Do c req = Inr resp" and "resp_Body resp = Inr body"
  shows
   "(body = [] \<and> 200 \<le> resp_StatusCode resp \<and> resp_StatusCode resp < 300 \<longrightarrow> do lib c req = Ok ([], None)) \<and>
    (body \<noteq> [] \<longrightarrow>
       ((\<exists>r. do lib c req = Ok r) =
          (\<exists>obj. json_Unmarshal lib decode_object body = Inr obj \<and> obj_Type obj \<noteq> ''error'')) \<and>
       (\<forall>obj. json_Unmarshal lib decode_object body = Inr obj \<and> obj_Type obj \<noteq> ''error'' \<longrightarrow>
          do lib c req = Ok (obj_Next obj, obj_Payload obj)) \<and>
       (\<forall>s. do lib (c\<lparr>http_Do := \<lambda>_. Inr (resp\<lparr>resp_StatusCode := s\<rparr>)\<rparr>) req = do lib c req))"
proof -
  have e: "do lib c req =
     (if body = [] \<and> 200 \<le> resp_StatusCode resp \<and> resp_StatusCode resp < 300 then Ok ([], None)
      else case json_Unmarshal lib decode_object body of
             Inl err \<Rightarrow> Err (ErrorString (req_URL req @ '': '' @ body))
           | Inr obj \<Rightarrow> if obj_Type obj = ''error''
                        then (case doError obj of Ok _ \<Rightarrow> Ok ([], None) | Err e \<Rightarrow> Err e | Panic p \<Rightarrow> Panic p)
                        else Ok (obj_Next obj, obj_Payload obj))"
    using assms by (rule do_exchange)
  have a: "body = [] \<and> 200 \<le> resp_StatusCode resp \<and> resp_StatusCode resp < 300 \<longrightarrow> do lib c req = Ok ([], None)"
    by (simp add: e)
  have b: "body \<noteq> [] \<Longrightarrow> (\<exists>r. do lib c req = Ok r) =
          (\<exists>obj. json_Unmarshal lib decode_object body = Inr obj \<and> obj_Type obj \<noteq> ''error'')"
    using doError_not_Ok by (auto simp: e split: sum.splits result.splits)
  have c: "body \<noteq> [] \<Longrightarrow> json_Unmarshal lib decode_object body = Inr obj \<and> obj_Type obj \<noteq> ''error'' \<Longrightarrow>
          do lib c req = Ok (obj_Next obj, obj_Payload obj)" for obj
    by (simp add: e)
  have d: "body \<noteq> [] \<Longrightarrow> do lib (c\<lparr>http_Do := \<lambda>_. Inr (resp\<lparr>resp_StatusCode := s\<rparr>)\<rparr>) req = do lib c req" for s
    using assms(2) by (simp add: e) (simp add: do_def)
  show ?thesis using a b c d by blast
qed

theorem do_status_and_type_witness:
  "http_Do (serving 204 []) some_request = Inr \<lparr>resp_StatusCode = 204, resp_Body = Inr []\<rparr> \<and>
   do (lib_knowing []) (serving 204 []) some_request = Ok ([], None) \<and>
   http_Do (serving 500 two_stubs_body) some_request = Inr \<lparr>resp_StatusCode = 500, resp_Body = Inr two_stubs_body\<rparr> \<and>
   two_stubs_body \<noteq> [] \<and>
   json_Unmarshal (lib_knowing [(two_stubs_body, two_stubs)]) decode_object two_stubs_body
     = Inr \<lparr>obj_Type = ''transactions'', obj_Next = [],
            obj_Payload = Some (JArray [JObject [(''id'', JInt 7)], JObject [(''id'', JInt 8)]])\<rparr> \<and>
   do (lib_knowing [(two_stubs_body, two_stubs)]) (serving 500 two_stubs_body) some_request
     = Ok ([], Some (JArray [JObject [(''id'', JInt 7)], JObject [(''id'', JInt 8)]])) \<and>
   do (lib_knowing [(two_stubs_body, two_stubs)]) (serving 200 two_stubs_body) some_request
     = do (lib_knowing [(two_stubs_body, two_stubs)]) (serving 500 two_stubs_body) some_request"
proof -
  have h1: "http_Do (serving 204 []) some_request = Inr \<lparr>resp_StatusCode = 204, resp_Body = Inr []\<rparr>"
    by (simp add: serving_def)
  have h2: "http_Do (serving 500 two_stubs_body) some_request
      = Inr \<lparr>resp_StatusCode = 500, resp_Body = Inr two_stubs_body\<rparr>"
    by (simp add: serving_def)
  have ne: "two_stubs_body \<noteq> []" by (simp add: two_stubs_body_def)
  have dec: "json_Unmarshal (lib_knowing [(two_stubs_body, two_stubs)]) decode_object two_stubs_body
     = Inr \<lparr>obj_Type = ''transactions'', obj_Next = [],
            obj_Payload = Some (JArray [JObject [(''id'', JInt 7)], JObject [(''id'', JInt 8)]])\<rparr>"
    by (simp add: two_stubs_body_def two_stubs_def eval_defs)
  note T1 = do_status_and_type [OF h1, of "[]" "lib_knowing []"]
  note T2 = do_status_and_type [OF h2, of two_stubs_body "lib_knowing [(two_stubs_body, two_stubs)]"]
  have r1: "do (lib_knowing []) (serving 204 []) some_request = Ok ([], None)"
    using T1 by simp
  have r2: "do (lib_knowing [(two_stubs_body, two_stubs)]) (serving 500 two_stubs_body) some_request
     = Ok ([], Some (JArray [JObject [(''id'', JInt 7)], JObject [(''id'', JInt 8)]]))"
    using T2 ne dec by simp
  have "do (lib_knowing [(two_stubs_body, two_stubs)])
          ((serving 500 two_stubs_body)\<lparr>http_Do := \<lambda>_. Inr (\<lparr>resp_StatusCode = 500, resp_Body = Inr two_stubs_body\<rparr>\<lparr>resp_StatusCode := 200\<rparr>)\<rparr>)
          some_request
        = do (lib_knowing [(two_stubs_body, two_stubs)]) (serving 500 two_stubs_body) some_request"
    using T2 ne by simp
  then have r3: "do (lib_knowing [(two_stubs_body, two_stubs)]) (serving 200 two_stubs_body) some_request
     = do (lib_knowing [(two_stubs_body, two_stubs)]) (serving 500 two_stubs_body) some_request"
    by (simp add: serving_def)
  show ?thesis
    using h1 h2 ne dec r1 r2 r3 by simp
qed

section \<open>Error envelopes\<close>



text \<open>
  C9 (the code does not do this). The claim: \<^verbatim>\<open>doError\<close> returns an error on every
  error envelope, also on one whose payload decodes to an empty sequence. In the code
  \<^verbatim>\<open>payload[0]\<close> is evaluated without a check of the length: on the payload \<^verbatim>\<open>[]\<close> and
  on the payload \<^verbatim>\<open>null\<close> \<^verbatim>\<open>doError\<close> panics with an index out of range, and so do
  \<^verbatim>\<open>do\<close> and the operations built on it (here Transfer).
\<close>

theorem doError_empty_panics:
  "doError \<lparr>obj_Type = ''error'', obj_Next = [], obj_Payload = Some (JArray [])\<rparr>
     = Panic (IndexOutOfRange 0 0) \<and>
   doError \<lparr>obj_Type = ''error'', obj_Next = [], obj_Payload = Some JNull\<rparr>
     = Panic (IndexOutOfRange 0 0) \<and>
   do (lib_knowing [(no_messages_body, envelope ''error'' (JArray []))])
     (serving 400 no_messages_body) some_request = Panic (IndexOutOfRange 0 0) \<and>
   Transfer (lib_knowing [(no_messages_body, envelope ''error'' (JArray []))])
     (serving 400 no_messages_body) 1 2 3 4 = Panic (IndexOutOfRange 0 0)"
  by (simp add: Transfer_def no_messages_body_def some_request_def eval_defs)

section \<open>Payloads of exactly one element\<close>

text \<open>
  C5. Whenever the request that the operation builds is accepted by \<^verbatim>\<open>http.NewRequest\<close>
  and the envelope exchange for that request succeeds, CreateAccount and Account return
  the decoded account exactly when the decoded list has one element, and the error
  \<^verbatim>\<open>expected one account\<close> for every other length (none, or more than one); CreateAddress
  does the same with the decoded addresses and the error \<^verbatim>\<open>expected one address\<close>.
  Nothing is assumed about what the library or the service do with other requests.
\<close>

theorem exactly_one_element:
  "(\<forall>req0 cursor payload accs.
      NewRequest lib ''POST'' (url c @ ''/accounts/'') [] = Inr req0 \<and>
      do lib c (Header_Set ''Accept'' ''application/json'' (SetBasicAuth (user c) (pass c) req0))
        = Ok (cursor, payload) \<and>
      accountsFromPayload payload = Inr accs \<longrightarrow>
      CreateAccount lib c =
        (if length accs = 1 then Ok (accs ! 0) else Err (ErrorString ''expected one account''))) \<and>
   (\<forall>req0 cursor payload accs.
      NewRequest lib ''GET'' (url c @ ''/accounts/'' @ itoa (sint ident)) [] = Inr req0 \<and>
      do lib c (Header_Set ''Accept'' ''application/json'' (SetBasicAuth (user c) (pass c) req0))
        = Ok (cursor, payload) \<and>
      accountsFromPayload payload = Inr accs \<longrightarrow>
      Account lib c ident =
        (if length accs = 1 then Ok (accs ! 0) else Err (ErrorString ''expected one account''))) \<and>
   (\<forall>req0 cursor payload addrs.
      NewRequest lib ''POST'' (url c @ ''/accounts/'' @ itoa (sint accountID) @ ''/addresses/'') [] = Inr req0 \<and>
      do lib c (Header_Set ''Accept'' ''application/json'' (SetBasicAuth (user c) (pass c) req0))
        = Ok (cursor, payload) \<and>
      Unmarshal_raw (decode_slice ''[]client.address'' decode_address) payload = Inr addrs \<longrightarrow>
      CreateAddress lib c accountID =
        (if length addrs = 1 then Ok (addr_Address (addrs ! 0))
         else Err (ErrorString ''expected one address'')))"
proof (intro conjI allI impI)
  fix req0 cursor payload accs
  assume "NewRequest lib ''POST'' (url c @ ''/accounts/'') [] = Inr req0 \<and>
      do lib c (Header_Set ''Accept'' ''application/json'' (SetBasicAuth (user c) (pass c) req0))
        = Ok (cursor, payload) \<and>
      accountsFromPayload payload = Inr accs"
  then show "CreateAccount lib c =
        (if length accs = 1 then Ok (accs ! 0) else Err (ErrorString ''expected one account''))"
    by (simp add: CreateAccount_def accountFromPayload_def Let_def)
next
  fix req0 cursor payload accs
  assume "NewRequest lib ''GET'' (url c @ ''/accounts/'' @ itoa (sint ident)) [] = Inr req0 \<and>
      do lib c (Header_Set ''Accept'' ''application/json'' (SetBasicAuth (user c) (pass c) req0))
        = Ok (cursor, payload) \<and>
      accountsFromPayload payload = Inr accs"
  then show "Account lib c ident =
        (if length accs = 1 then Ok (accs ! 0) else Err (ErrorString ''expected one account''))"
    by (simp add: Account_def accountFromPayload_def Let_def)
next
  fix req0 cursor payload addrs
  assume "NewRequest lib ''POST'' (url c @ ''/accounts/'' @ itoa (sint accountID) @ ''/addresses/'') [] = Inr req0 \<and>
      do lib c (Header_Set ''Accept'' ''application/json'' (SetBasicAuth (user c) (pass c) req0))
        = Ok (cursor, payload) \<and>
      Unmarshal_raw (decode_slice ''[]client.address'' decode_address) payload = Inr addrs"
  then show "CreateAddress lib c accountID =
        (if length addrs = 1 then Ok (addr_Address (addrs ! 0))
         else Err (ErrorString ''expected one address''))"
    by (simp add: CreateAddress_def Let_def)
qed

lemma itoa_1: "itoa 1 = ''1''"
  by (simp add: itoa_def digits.simps [of "Suc 0"])

lemmas eval_routed =
  lib_strict_def routed_def rtwire_routes_def rtwire_docs_def two_accounts_body_def
  one_account_body_def one_address_body_def two_accounts_def one_account_def one_address_def

theorem exactly_one_element_witness:
  "url_Parse (lib_strict rtwire_docs) ''100%'' = Inl ''invalid URL escape'' \<and>
   http_Do (routed rtwire_routes) (some_request\<lparr>req_URL := ''https://api.rtwire.com/v1/mainnet/fees/''\<rparr>)
     = Inl ''connection refused'' \<and>
   CreateAccount (lib_strict rtwire_docs) (routed rtwire_routes)
     = Err (ErrorString ''expected one account'') \<and>
   Account (lib_strict rtwire_docs) (routed rtwire_routes) 1 = Ok \<lparr>acc_ID = 1, acc_Balance = 0\<rparr> \<and>
   CreateAddress (lib_strict rtwire_docs) (routed rtwire_routes) 1
     = Ok ''12aXxEWgTYZgAiGC81Tqu1cSiDUSy3embt'' \<and>
   CreateAccount (lib_knowing [(no_transactions_body, envelope ''transactions'' (JArray []))])
     (serving 200 no_transactions_body) = Err (ErrorString ''expected one account'') \<and>
   CreateAddress (lib_knowing [(no_transactions_body, envelope ''transactions'' (JArray []))])
     (serving 200 no_transactions_body) 1 = Err (ErrorString ''expected one address'')"
proof -
  let ?lib = "lib_strict rtwire_docs" and ?c = "routed rtwire_routes"
  let ?prep = "\<lambda>req0. Header_Set ''Accept'' ''application/json'' (SetBasicAuth (user ?c) (pass ?c) req0)"
  let ?r1 = "\<lparr>req_Method = ''POST'', req_URL = ''https://api.rtwire.com/v1/mainnet/accounts/'',
          req_Header = Map.empty, req_BasicAuth = None, req_Body = []\<rparr>"
  let ?r2 = "\<lparr>req_Method = ''GET'', req_URL = ''https://api.rtwire.com/v1/mainnet/accounts/1'',
          req_Header = Map.empty, req_BasicAuth = None, req_Body = []\<rparr>"
  let ?r3 = "\<lparr>req_Method = ''POST'', req_URL = ''https://api.rtwire.com/v1/mainnet/accounts/1/addresses/'',
          req_Header = Map.empty, req_BasicAuth = None, req_Body = []\<rparr>"
  let ?two = "Some (JArray [JObject [(''id'', JInt 1), (''balance'', JInt 0)],
                            JObject [(''id'', JInt 2), (''balance'', JInt 0)]])"
  let ?one = "Some (JArray [JObject [(''id'', JInt 1), (''balance'', JInt 0)]])"
  let ?adr = "Some (JArray [JObject [(''address'', JString ''12aXxEWgTYZgAiGC81Tqu1cSiDUSy3embt'')]])"
  have u: "url_Parse ?lib ''100%'' = Inl ''invalid URL escape''"
    by (simp add: lib_strict_def lib_knowing_def)
  have refused: "http_Do ?c (some_request\<lparr>req_URL := ''https://api.rtwire.com/v1/mainnet/fees/''\<rparr>)
     = Inl ''connection refused''"
    by (simp add: routed_def rtwire_routes_def some_request_def)
  have n1: "NewRequest ?lib ''POST'' (url ?c @ ''/accounts/'') [] = Inr ?r1"
    by (simp add: NewRequest_def lib_strict_def lib_knowing_def routed_def)
  have n2: "NewRequest ?lib ''GET'' (url ?c @ ''/accounts/'' @ itoa (sint (1 :: 64 word))) [] = Inr ?r2"
    by (simp add: itoa_1 NewRequest_def lib_strict_def lib_knowing_def routed_def)
  have n3: "NewRequest ?lib ''POST'' (url ?c @ ''/accounts/'' @ itoa (sint (1 :: 64 word)) @ ''/addresses/'') []
      = Inr ?r3"
    by (simp add: itoa_1 NewRequest_def lib_strict_def lib_knowing_def routed_def)
  have d1: "do ?lib ?c (?prep ?r1) = Ok ([], ?two)"
    by (simp add: eval_routed eval_defs)
  have d2: "do ?lib ?c (?prep ?r2) = Ok ([], ?one)"
    by (simp add: eval_routed eval_defs)
  have d3: "do ?lib ?c (?prep ?r3) = Ok ([], ?adr)"
    by (simp add: eval_routed eval_defs)
  have a1: "accountsFromPayload ?two = Inr [\<lparr>acc_ID = 1, acc_Balance = 0\<rparr>, \<lparr>acc_ID = 2, acc_Balance = 0\<rparr>]"
    by (simp add: eval_defs eval_more)
  have a2: "accountsFromPayload ?one = Inr [\<lparr>acc_ID = 1, acc_Balance = 0\<rparr>]"
    by (simp add: eval_defs eval_more)
  have a3: "Unmarshal_raw (decode_slice ''[]client.address'' decode_address) ?adr
      = Inr [\<lparr>addr_Address = ''12aXxEWgTYZgAiGC81Tqu1cSiDUSy3embt''\<rparr>]"
    by (simp add: eval_defs eval_more)
  note T = exactly_one_element [of ?lib ?c 1 1]
  have r1: "CreateAccount ?lib ?c = Err (ErrorString ''expected one account'')"
    using T n1 d1 a1 by fastforce
  have r2: "Account ?lib ?c 1 = Ok \<lparr>acc_ID = 1, acc_Balance = 0\<rparr>"
    using T n2 d2 a2 by fastforce
  have r3: "CreateAddress ?lib ?c 1 = Ok ''12aXxEWgTYZgAiGC81Tqu1cSiDUSy3embt''"
    using T n3 d3 a3 by fastforce
  let ?lib0 = "lib_knowing [(no_transactions_body, envelope ''transactions'' (JArray []))]"
  let ?c0 = "serving 200 no_transactions_body"
  have m1: "NewRequest ?lib0 ''POST'' (url ?c0 @ ''/accounts/'') [] = Inr ?r1"
    by (simp add: NewRequest_def lib_knowing_def serving_def)
  have m3: "NewRequest ?lib0 ''POST'' (url ?c0 @ ''/accounts/'' @ itoa (sint (1 :: 64 word)) @ ''/addresses/'') []
      = Inr ?r3"
    by (simp add: itoa_1 NewRequest_def lib_knowing_def serving_def)
  have e: "do ?lib0 ?c0 req = Ok ([], Some (JArray []))" for req
    by (simp add: no_transactions_body_def eval_defs)
  have b1: "accountsFromPayload (Some (JArray [])) = Inr []"
    by (simp add: eval_defs eval_more)
  have b3: "Unmarshal_raw (decode_slice ''[]client.address'' decode_address) (Some (JArray [])) = Inr []"
    by (simp add: eval_defs eval_more)
  note T0 = exactly_one_element [of ?lib0 ?c0 1 1]
  have r4: "CreateAccount ?lib0 ?c0 = Err (ErrorString ''expected one account'')"
    using T0 m1 e b1 by fastforce
  have r5: "CreateAddress ?lib0 ?c0 1 = Err (ErrorString ''expected one address'')"
    using T0 m3 e b3 by fastforce
  show ?thesis using u refused r1 r2 r3 r4 r5 by simp
qed

text \<open>
  C10 (the code does not do this). The claim: Transaction returns an error when the
  payload of a success envelope is an empty list. In the code \<^verbatim>\<open>txns[0]\<close> is evaluated
  without a check of the length: on the empty list Transaction panics with an index out
  of range, where Account on the same response returns \<^verbatim>\<open>expected one account\<close>; on a
  list of two Transaction returns the first, where Account returns the error.
\<close>

theorem Transaction_empty_panics:
  "Transaction (lib_knowing [(no_transactions_body, envelope ''transactions'' (JArray []))])
     (serving 200 no_transactions_body) 1 = Panic (IndexOutOfRange 0 0) \<and>
   Account (lib_knowing [(no_transactions_body, envelope ''transactions'' (JArray []))])
     (serving 200 no_transactions_body) 1 = Err (ErrorString ''expected one account'') \<and>
   Transaction (lib_knowing [(two_stubs_body, two_stubs)]) (serving 200 two_stubs_body) 7
     = Ok (zero_Transaction\<lparr>tx_ID := 7\<rparr>) \<and>
   Account (lib_knowing [(two_stubs_body, two_stubs)]) (serving 200 two_stubs_body) 7
     = Err (ErrorString ''expected one account'')"
  by (simp add: no_transactions_body_def two_stubs_body_def two_stubs_def eval_defs eval_more)

section \<open>Transaction IDs\<close>

lemma fill_Inr:
  "fill i txns ids = Inr ids' \<Longrightarrow>
     length ids' = length ids \<and>
     (txns \<noteq> [] \<longrightarrow> i + length txns \<le> length ids) \<and>
     (\<forall>j<length txns. ids' ! (i + j) = tx_ID (txns ! j)) \<and>
     (\<forall>k<length ids. k < i \<or> i + length txns \<le> k \<longrightarrow> ids' ! k = ids ! k)"
proof (induction txns arbitrary: i ids)
  case Nil
  then show ?case by simp
next
  case (Cons tx txns)
  from Cons.prems have lt: "i < length ids"
    and rec: "fill (Suc i) txns (ids[i := tx_ID tx]) = Inr ids'"
    by (auto split: if_splits)
  note IH = Cons.IH [OF rec]
  have len: "length ids' = length ids" using IH by simp
  have bound: "i + length (tx # txns) \<le> length ids"
    using IH lt by (cases txns) auto
  have keep: "\<And>k. k < length ids \<Longrightarrow> k < Suc i \<or> Suc i + length txns \<le> k \<Longrightarrow> ids' ! k = (ids[i := tx_ID tx]) ! k"
    using IH by (auto simp: nth_list_update)
  have here: "ids' ! i = tx_ID tx"
    using keep [of i] lt by simp
  have at: "\<forall>j<length (tx # txns). ids' ! (i + j) = tx_ID ((tx # txns) ! j)"
  proof (intro allI impI)
    fix j assume "j < length (tx # txns)"
    then show "ids' ! (i + j) = tx_ID ((tx # txns) ! j)"
      using IH here by (cases j) auto
  qed
  have out: "\<forall>k<length ids. k < i \<or> i + length (tx # txns) \<le> k \<longrightarrow> ids' ! k = ids ! k"
  proof (intro allI impI)
    fix k assume k: "k < length ids" and o: "k < i \<or> i + length (tx # txns) \<le> k"
    then have "ids' ! k = (ids[i := tx_ID tx]) ! k" using keep [of k] by auto
    moreover have "k \<noteq> i" using o by auto
    ultimately show "ids' ! k = ids ! k" by simp
  qed
  show ?case using len bound at out by blast
qed

lemma fill_fits:
  "i + length txns \<le> length ids \<Longrightarrow> \<exists>ids'. fill i txns ids = Inr ids'"
  by (induction txns arbitrary: i ids) auto

lemma fill_overflow:
  "length ids < i + length txns \<Longrightarrow> i \<le> length ids \<Longrightarrow>
   fill i txns ids = Inl (IndexOutOfRange (length ids) (length ids))"
  by (induction txns arbitrary: i ids) auto

lemma fill_exact:
  "fill 0 txns (replicate (length txns) 0) = Inr (map tx_ID txns)"
proof -
  obtain ids' where f: "fill 0 txns (replicate (length txns) 0) = Inr ids'"
    using fill_fits [of 0 txns "replicate (length txns) 0"] by auto
  from fill_Inr [OF f] have "length ids' = length txns" and "\<forall>j<length txns. ids' ! j = tx_ID (txns ! j)"
    by auto
  then have "ids' = map tx_ID txns" by (simp add: list_eq_iff_nth_eq)
  with f show ?thesis by simp
qed

text \<open>
  What the code does guarantee: whenever the request is accepted, its exchange succeeds
  and the payload decodes to the transactions \<open>txns\<close>, a call that returns a list returns
  one of exactly \<open>n\<close> entries in which the entry at the index of each decoded transaction
  is its ID and every later entry is 0; the call returns a list exactly when the payload
  holds at most \<open>n\<close> transactions, and panics otherwise.
\<close>

lemma CreateTransactionIDs_entries:
  assumes "NewRequest lib ''POST'' (url c @ ''/transactions/'')
             (json_Encode lib (JObject [(''n'', JInt n)])) = Inr req0"
    and "do lib c (Header_Set ''Content-Type'' ''application/json''
                     (Header_Set ''Accept'' ''application/json''
                       (SetBasicAuth (user c) (pass c) req0))) = Ok (cursor, payload)"
    and "Unmarshal_raw (decode_slice ''[]client.Transaction'' (decode_Transaction lib)) payload = Inr txns"
    and "0 \<le> n"
  shows
   "(\<forall>txIDs. CreateTransactionIDs lib c n = Ok txIDs \<longrightarrow>
        int (length txIDs) = n \<and> length txns \<le> length txIDs \<and>
        (\<forall>i<length txns. txIDs ! i = tx_ID (txns ! i)) \<and>
        (\<forall>i<length txIDs. length txns \<le> i \<longrightarrow> txIDs ! i = 0)) \<and>
    (int (length txns) = n \<longrightarrow> CreateTransactionIDs lib c n = Ok (map tx_ID txns)) \<and>
    (int (length txns) \<le> n \<longrightarrow> (\<exists>txIDs. CreateTransactionIDs lib c n = Ok txIDs)) \<and>
    (n < int (length txns) \<longrightarrow>
        CreateTransactionIDs lib c n = Panic (IndexOutOfRange (nat n) (nat n)))"
proof -
  have e: "CreateTransactionIDs lib c n =
      (case fill 0 txns (replicate (nat n) 0) of Inl p \<Rightarrow> Panic p | Inr txIDs \<Rightarrow> Ok txIDs)"
    using assms by (simp add: CreateTransactionIDs_def Let_def)
  have a: "int (length txIDs) = n \<and> length txns \<le> length txIDs \<and>
        (\<forall>i<length txns. txIDs ! i = tx_ID (txns ! i)) \<and>
        (\<forall>i<length txIDs. length txns \<le> i \<longrightarrow> txIDs ! i = 0)"
    if "CreateTransactionIDs lib c n = Ok txIDs" for txIDs
  proof -
    from that have f: "fill 0 txns (replicate (nat n) 0) = Inr txIDs"
      by (simp add: e split: sum.splits)
    from fill_Inr [OF f] assms(4) show ?thesis by (cases txns) auto
  qed
  have b: "CreateTransactionIDs lib c n = Ok (map tx_ID txns)" if "int (length txns) = n"
  proof -
    from that have "nat n = length txns" by simp
    then show ?thesis by (simp add: e fill_exact)
  qed
  have c: "\<exists>txIDs. CreateTransactionIDs lib c n = Ok txIDs" if "int (length txns) \<le> n"
  proof -
    from that have "0 + length txns \<le> length (replicate (nat n) (0 :: int64))" by simp
    from fill_fits [OF this] show ?thesis by (auto simp: e)
  qed
  have d: "CreateTransactionIDs lib c n = Panic (IndexOutOfRange (nat n) (nat n))"
    if "n < int (length txns)"
  proof -
    from that assms(4) have "length (replicate (nat n) (0 :: int64)) < 0 + length txns" by simp
    from fill_overflow [OF this] show ?thesis by (simp add: e)
  qed
  show ?thesis using a b c d by blast
qed

text \<open>
  C6 (the code does not do this). The claim: a successful call of
  CreateTransactionIDs(n) returns exactly \<open>n\<close> transaction IDs, the \<open>i\<close>-th of them the ID
  of the \<open>i\<close>-th decoded transaction. The code never compares the number of decoded
  transactions with \<open>n\<close>: on a payload of two transactions (IDs 7 and 8) the call for
  \<open>n = 3\<close> succeeds with \<open>[7, 8, 0]\<close>, whose third entry is the ID of no decoded
  transaction, and on a payload of none the call for \<open>n = 2\<close> succeeds with \<open>[0, 0]\<close>.
  (For \<open>n = 2\<close> the two IDs come back in order, and for \<open>n = 1\<close> the second assignment
  panics.)
\<close>

theorem CreateTransactionIDs_pads_with_zero:
  "Unmarshal_raw
     (decode_slice ''[]client.Transaction'' (decode_Transaction (lib_knowing [(two_stubs_body, two_stubs)])))
     (Some (JArray [JObject [(''id'', JInt 7)], JObject [(''id'', JInt 8)]]))
     = Inr [zero_Transaction\<lparr>tx_ID := 7\<rparr>, zero_Transaction\<lparr>tx_ID := 8\<rparr>] \<and>
   do (lib_knowing [(two_stubs_body, two_stubs)]) (serving 200 two_stubs_body) some_request
     = Ok ([], Some (JArray [JObject [(''id'', JInt 7)], JObject [(''id'', JInt 8)]])) \<and>
   CreateTransactionIDs (lib_knowing [(two_stubs_body, two_stubs)]) (serving 200 two_stubs_body) 3
     = Ok [7, 8, 0] \<and>
   CreateTransactionIDs (lib_knowing [(no_transactions_body, envelope ''transactions'' (JArray []))])
     (serving 200 no_transactions_body) 2 = Ok [0, 0] \<and>
   CreateTransactionIDs (lib_knowing [(two_stubs_body, two_stubs)]) (serving 200 two_stubs_body) 2
     = Ok [7, 8] \<and>
   CreateTransactionIDs (lib_knowing [(two_stubs_body, two_stubs)]) (serving 200 two_stubs_body) 1
     = Panic (IndexOutOfRange 1 1)"
  by (simp add: CreateTransactionIDs_def two_stubs_body_def two_stubs_def no_transactions_body_def
        some_request_def eval_defs eval_more numeral_3_eq_3 numeral_2_eq_2)

text \<open>A negative \<open>n\<close> panics in \<^verbatim>\<open>make\<close>.\<close>

lemma CreateTransactionIDs_negative:
  "CreateTransactionIDs (lib_knowing [(two_stubs_body, two_stubs)]) (serving 200 two_stubs_body) (- 1)
     = Panic (MakesliceOutOfRange (- 1))"
  by (simp add: CreateTransactionIDs_def two_stubs_body_def two_stubs_def eval_defs eval_more)

section \<open>The webhook event parser: content type and dispatch\<close>

lemma elements_Inr:
  "elements dec vs = Inr xs \<Longrightarrow>
     length xs = length vs \<and> (\<forall>i<length vs. dec (vs ! i) = Inr (xs ! i))"
proof (induction vs arbitrary: xs)
  case Nil
  then show ?case by simp
next
  case (Cons v vs)
  then obtain x xs' where x: "dec v = Inr x" and r: "elements dec vs = Inr xs'" and xs: "xs = x # xs'"
    by (auto split: sum.splits)
  from Cons.IH [OF r] have "length xs' = length vs" and "\<forall>i<length vs. dec (vs ! i) = Inr (xs' ! i)"
    by auto
  then show ?case using x xs by (auto simp: nth_Cons split: nat.splits)
qed

text \<open>
  C7. A request whose Content-Type is not \<^verbatim>\<open>application/json\<close> gets the error
  \<^verbatim>\<open>incorrect content type\<close> whatever its body holds and whatever the JSON library does
  (the body is neither read nor parsed). A request whose Content-Type is
  \<^verbatim>\<open>application/json\<close> never gets that error and has its body decoded: an error of the
  decoder or of decoding the envelope is returned, and a decoded envelope is dispatched
  on its type.
\<close>

theorem Unmarshal_content_type:
  "(Header_Get (req_Header r) ''Content-Type'' \<noteq> ''application/json'' \<longrightarrow>
      (\<forall>lib' body. Unmarshal lib' (r\<lparr>req_Body := body\<rparr>) = Inl (ErrorString ''incorrect content type''))) \<and>
   (Header_Get (req_Header r) ''Content-Type'' = ''application/json'' \<longrightarrow>
      Unmarshal lib r \<noteq> Inl (ErrorString ''incorrect content type'') \<and>
      (\<forall>e. json_next lib (req_Body r) = Inl e \<longrightarrow> Unmarshal lib r = Inl (LibError e)) \<and>
      (\<forall>v e. json_next lib (req_Body r) = Inr v \<and> decode_object v = Inl e \<longrightarrow> Unmarshal lib r = Inl e) \<and>
      (\<forall>v obj. json_next lib (req_Body r) = Inr v \<and> decode_object v = Inr obj \<longrightarrow>
          Unmarshal lib r =
            (if obj_Type obj = ''transactions''
             then Unmarshal_raw (decode_slice ''[]client.TransactionEvent'' (decode_TransactionEvent lib))
                    (obj_Payload obj)
             else Inl (ErrorString (''unknown object type '' @ obj_Type obj)))))"
proof -
  have no: "Unmarshal lib r \<noteq> Inl (ErrorString ''incorrect content type'')"
    if ct: "Header_Get (req_Header r) ''Content-Type'' = ''application/json''"
  proof
    assume u: "Unmarshal lib r = Inl (ErrorString ''incorrect content type'')"
    show False
    proof (cases "json_next lib (req_Body r)")
      case (Inl err)
      with ct u show False by (simp add: Unmarshal_def)
    next
      case (Inr v)
      show False
      proof (cases "decode_object v")
        case (Inl err)
        with ct u Inr have "err = ErrorString ''incorrect content type''" by (simp add: Unmarshal_def)
        with Inl decode_object_lib [of v err] show False by simp
      next
        case obj: (Inr obj)
        show False
        proof (cases "obj_Type obj = ''transactions''")
          case True
          with ct u Inr obj have
            "Unmarshal_raw (decode_slice ''[]client.TransactionEvent'' (decode_TransactionEvent lib)) (obj_Payload obj)
               = Inl (ErrorString ''incorrect content type'')"
            by (simp add: Unmarshal_def)
          from events_lib [OF this] show False by simp
        next
          case False
          with ct u Inr obj show False by (simp add: Unmarshal_def)
        qed
      qed
    qed
  qed
  show ?thesis using no by (simp add: Unmarshal_def)
qed

theorem Unmarshal_content_type_witness:
  "Header_Get (req_Header (hook_request ''text/plain'' events_body)) ''Content-Type'' \<noteq> ''application/json'' \<and>
   Unmarshal (lib_knowing [(events_body, events_doc)]) (hook_request ''text/plain'' events_body)
     = Inl (ErrorString ''incorrect content type'') \<and>
   Unmarshal (lib_knowing []) (hook_request ''text/plain'' ''not json'')
     = Inl (ErrorString ''incorrect content type'') \<and>
   Header_Get (req_Header (hook_request ''application/json'' ''not json'')) ''Content-Type'' = ''application/json'' \<and>
   json_next (lib_knowing []) (req_Body (hook_request ''application/json'' ''not json'')) = Inl ''EOF'' \<and>
   Unmarshal (lib_knowing []) (hook_request ''application/json'' ''not json'') = Inl (LibError ''EOF'')"
proof -
  have h1: "Header_Get (req_Header (hook_request ''text/plain'' events_body)) ''Content-Type'' \<noteq> ''application/json''"
    by (simp add: hook_request_def Header_Get_def)
  have h2: "Header_Get (req_Header (hook_request ''application/json'' ''not json'')) ''Content-Type'' = ''application/json''"
    by (simp add: hook_request_def Header_Get_def)
  have n: "json_next (lib_knowing []) (req_Body (hook_request ''application/json'' ''not json'')) = Inl ''EOF''"
    by (simp add: hook_request_def lib_knowing_def)
  note T1 = Unmarshal_content_type [of "hook_request ''text/plain'' events_body"]
  note T2 = Unmarshal_content_type [of "hook_request ''application/json'' ''not json''" "lib_knowing []"]
  have u1: "(hook_request ''text/plain'' events_body)\<lparr>req_Body := events_body\<rparr> = hook_request ''text/plain'' events_body"
    and u2: "(hook_request ''text/plain'' events_body)\<lparr>req_Body := ''not json''\<rparr> = hook_request ''text/plain'' ''not json''"
    by (simp_all add: hook_request_def)
  from T1 h1 have a: "\<forall>lib' body. Unmarshal lib' ((hook_request ''text/plain'' events_body)\<lparr>req_Body := body\<rparr>)
      = Inl (ErrorString ''incorrect content type'')"
    by blast
  have r1: "Unmarshal (lib_knowing [(events_body, events_doc)]) (hook_request ''text/plain'' events_body)
     = Inl (ErrorString ''incorrect content type'')"
    using a u1 by metis
  have r2: "Unmarshal (lib_knowing []) (hook_request ''text/plain'' ''not json'')
     = Inl (ErrorString ''incorrect content type'')"
    using a u2 by metis
  have r3: "Unmarshal (lib_knowing []) (hook_request ''application/json'' ''not json'') = Inl (LibError ''EOF'')"
    using T2 h2 n by blast
  show ?thesis using h1 h2 n r1 r2 r3 by blast
qed

text \<open>
  C8. For a request with the JSON content type whose body decodes to an envelope: when
  the type is \<^verbatim>\<open>transactions\<close>, the result is the payload decoded as a sequence of
  TransactionEvent, with as many events as the payload array has elements and the
  \<open>i\<close>-th event decoded from the \<open>i\<close>-th element; for every other type the result is
  a fresh error whose text is \<^verbatim>\<open>unknown object type\<close> followed by that type.
\<close>

theorem Unmarshal_dispatch:
  assumes "Header_Get (req_Header r) ''Content-Type'' = ''application/json''"
    and "json_next lib (req_Body r) = Inr v" and "decode_object v = Inr obj"
  shows
   "(obj_Type obj = ''transactions'' \<longrightarrow>
      Unmarshal lib r =
        Unmarshal_raw (decode_slice ''[]client.TransactionEvent'' (decode_TransactionEvent lib)) (obj_Payload obj) \<and>
      (\<forall>vs events. obj_Payload obj = Some (JArray vs) \<and> elements (decode_TransactionEvent lib) vs = Inr events \<longrightarrow>
          Unmarshal lib r = Inr events) \<and>
      (\<forall>vs events. obj_Payload obj = Some (JArray vs) \<and> Unmarshal lib r = Inr events \<longrightarrow>
          length events = length vs \<and>
          (\<forall>i<length vs. decode_TransactionEvent lib (vs ! i) = Inr (events ! i)))) \<and>
    (obj_Type obj \<noteq> ''transactions'' \<longrightarrow>
      (\<exists>e. Unmarshal lib r = Inl e \<and> Error e = ''unknown object type '' @ obj_Type obj \<and>
           e = ErrorString (''unknown object type '' @ obj_Type obj)))"
proof -
  have e: "Unmarshal lib r =
            (if obj_Type obj = ''transactions''
             then Unmarshal_raw (decode_slice ''[]client.TransactionEvent'' (decode_TransactionEvent lib))
                    (obj_Payload obj)
             else Inl (ErrorString (''unknown object type '' @ obj_Type obj)))"
    using assms by (simp add: Unmarshal_def)
  have ord: "length events = length vs \<and> (\<forall>i<length vs. decode_TransactionEvent lib (vs ! i) = Inr (events ! i))"
    if "obj_Type obj = ''transactions''" and "obj_Payload obj = Some (JArray vs)" and "Unmarshal lib r = Inr events"
    for vs events
  proof -
    from that have "elements (decode_TransactionEvent lib) vs = Inr events"
      by (simp add: e Unmarshal_raw_def decode_slice_def)
    then show ?thesis by (rule elements_Inr)
  qed
  have ok: "Unmarshal lib r = Inr events"
    if "obj_Type obj = ''transactions''" and "obj_Payload obj = Some (JArray vs)"
      and "elements (decode_TransactionEvent lib) vs = Inr events" for vs events
    using that by (simp add: e Unmarshal_raw_def decode_slice_def)
  show ?thesis using e ord ok by auto
qed

theorem Unmarshal_dispatch_witness:
  "Header_Get (req_Header (hook_request ''application/json'' events_body)) ''Content-Type'' = ''application/json'' \<and>
   json_next (lib_knowing [(events_body, events_doc)]) (req_Body (hook_request ''application/json'' events_body))
     = Inr events_doc \<and>
   obj_Type (projr (decode_object events_doc)) = ''transactions'' \<and>
   Unmarshal (lib_knowing [(events_body, events_doc)]) (hook_request ''application/json'' events_body)
     = Inr [zero_TransactionEvent\<lparr>tx_ID := 5, tx_Type := ''credit'', tx_ToAccountID := 1, tx_Value := 10,
              ev_Status := ''pending''\<rparr>,
            zero_TransactionEvent\<lparr>tx_ID := 6, tx_Type := ''credit''\<rparr>] \<and>
   json_next (lib_knowing [(one_account_body, one_account)]) (req_Body (hook_request ''application/json'' one_account_body))
     = Inr one_account \<and>
   obj_Type (projr (decode_object one_account)) = ''accounts'' \<and>
   Unmarshal (lib_knowing [(one_account_body, one_account)]) (hook_request ''application/json'' one_account_body)
     = Inl (ErrorString ''unknown object type accounts'')"
proof -
  let ?lib = "lib_knowing [(events_body, events_doc)]"
  let ?r = "hook_request ''application/json'' events_body"
  let ?vs = "[JObject [(''id'', JInt 5), (''type'', JString ''credit''), (''toAccountID'', JInt 1),
                       (''value'', JInt 10), (''status'', JString ''pending'')],
              JObject [(''id'', JInt 6), (''type'', JString ''credit''), (''status'', JString [])]]"
  let ?evs = "[zero_TransactionEvent\<lparr>tx_ID := 5, tx_Type := ''credit'', tx_ToAccountID := 1, tx_Value := 10,
              ev_Status := ''pending''\<rparr>,
            zero_TransactionEvent\<lparr>tx_ID := 6, tx_Type := ''credit''\<rparr>]"
  have ct: "Header_Get (req_Header (hook_request ''application/json'' b)) ''Content-Type'' = ''application/json''" for b
    by (simp add: hook_request_def Header_Get_def)
  have n1: "json_next ?lib (req_Body ?r) = Inr events_doc"
    by (simp add: hook_request_def lib_knowing_def)
  have o1: "decode_object events_doc = Inr \<lparr>obj_Type = ''transactions'', obj_Next = [], obj_Payload = Some (JArray ?vs)\<rparr>"
    by (simp add: events_doc_def eval_defs)
  have el: "elements (decode_TransactionEvent ?lib) ?vs = Inr ?evs"
    by (simp add: eval_defs eval_hook)
  have r1: "Unmarshal ?lib ?r = Inr ?evs"
    using Unmarshal_dispatch [OF ct n1 o1] el by (auto simp del: elements.simps)
  let ?lib2 = "lib_knowing [(one_account_body, one_account)]"
  let ?r2 = "hook_request ''application/json'' one_account_body"
  have n2: "json_next ?lib2 (req_Body ?r2) = Inr one_account"
    by (simp add: hook_request_def lib_knowing_def)
  have o2: "decode_object one_account = Inr \<lparr>obj_Type = ''accounts'', obj_Next = [],
       obj_Payload = Some (JArray [JObject [(''id'', JInt 1), (''balance'', JInt 0)]])\<rparr>"
    by (simp add: one_account_def eval_defs)
  have r2: "Unmarshal ?lib2 ?r2 = Inl (ErrorString ''unknown object type accounts'')"
    using Unmarshal_dispatch [OF ct n2 o2] by simp
  show ?thesis using ct n1 o1 r1 n2 o2 r2 by simp
qed

end
